theory Spec2Isabelle
  imports Main "HOL-Library.Word"
begin

section \<open>Data model\<close>

text \<open>
  \<^verbatim>\<open>internal/data/user.go\<close>: the record carried by a token and stored in the
  durable store. \<^verbatim>\<open>Timestamp\<close> is a Go \<^verbatim>\<open>int64\<close> (Unix milliseconds).
\<close>

record User =
  Address :: string
  Email :: string
  UUID :: string
  Timestamp :: "64 word"
  Sponsor :: string

section \<open>Presence cache (\<^verbatim>\<open>internal/cache\<close>)\<close>

text \<open>
  \<^verbatim>\<open>type Cache struct { mu sync.RWMutex; m map[string]int64 }\<close>.
  Every method takes the lock for its whole body, so each one is a single atomic step on the
  backing map; the model is that sequential step. The field \<^verbatim>\<open>m\<close> is \<open>c_m\<close>.
\<close>

record Cache =
  c_m :: "string \<rightharpoonup> 64 word"

definition Cache_New :: Cache where
  "Cache_New = \<lparr>c_m = Map.empty\<rparr>"

definition Cache_IsPresent :: "Cache \<Rightarrow> string \<Rightarrow> bool" where
  "Cache_IsPresent c key = (case c_m c key of None \<Rightarrow> False | Some _ \<Rightarrow> True)"

definition Cache_Add :: "Cache \<Rightarrow> string \<Rightarrow> 64 word \<Rightarrow> Cache" where
  "Cache_Add c key ts = c\<lparr>c_m := (c_m c)(key \<mapsto> ts)\<rparr>"

text \<open>
  \<^verbatim>\<open>Fill\<close> receives a Go map value, which may be \<^verbatim>\<open>nil\<close>: the argument is
  \<open>None\<close> for \<^verbatim>\<open>nil\<close> and \<open>Some entries\<close> otherwise.
\<close>

definition Cache_Fill :: "Cache \<Rightarrow> (string \<rightharpoonup> 64 word) option \<Rightarrow> Cache" where
  "Cache_Fill c entries =
     (let entries' = (case entries of None \<Rightarrow> Map.empty | Some e \<Rightarrow> e)
      in c\<lparr>c_m := entries'\<rparr>)"

section \<open>HTTP boundary (the parts of \<^verbatim>\<open>gin\<close> the handlers use)\<close>

text \<open>The \<^verbatim>\<open>net/http\<close> status codes that \<^verbatim>\<open>routes.go\<close> writes, and 412 for comparison.\<close>

definition StatusOK :: nat where "StatusOK = 200"
definition StatusCreated :: nat where "StatusCreated = 201"
definition StatusAccepted :: nat where "StatusAccepted = 202"
definition StatusNoContent :: nat where "StatusNoContent = 204"
definition StatusBadRequest :: nat where "StatusBadRequest = 400"
definition StatusUnauthorized :: nat where "StatusUnauthorized = 401"
definition StatusNotFound :: nat where "StatusNotFound = 404"
definition StatusConflict :: nat where "StatusConflict = 409"
definition StatusPreconditionFailed :: nat where "StatusPreconditionFailed = 412"
definition StatusTooManyRequests :: nat where "StatusTooManyRequests = 429"
definition StatusInternalServerError :: nat where "StatusInternalServerError = 500"

text \<open>
  A JSON object \<^verbatim>\<open>gin.H{...}\<close> is its list of fields; a response body is such an object,
  a serialised \<^verbatim>\<open>User\<close>, CSV rows, or nothing.
\<close>

datatype json = JString string | JBool bool | JInt int | JUsers "User list"

datatype body = NoBody | JSONBody "(string \<times> json) list" | JSONUser User | CSVBody "string list list"

text \<open>
  The request as the handlers read it: the path parameters the router bound, the headers, the
  query string, the raw body, the client address, and the instant \<^verbatim>\<open>time.Now()\<close>
  returns while the request is served (Unix milliseconds).
\<close>

record request =
  req_method :: string
  req_header :: "(string \<times> string) list"
  req_param :: "(string \<times> string) list"
  req_query :: "(string \<times> string) list"
  req_body :: string
  req_ClientIP :: string
  req_now :: int

text \<open>\<^verbatim>\<open>gin.Context\<close>: the request, what has been written to the response, and the abort flag.\<close>

record Context =
  Request :: request
  Writer_header :: "string \<rightharpoonup> string"
  Writer_status :: nat
  Writer_body :: body
  aborted :: bool

definition NewContext :: "request \<Rightarrow> Context" where
  "NewContext r = \<lparr>Request = r, Writer_header = Map.empty, Writer_status = StatusOK,
                   Writer_body = NoBody, aborted = False\<rparr>"

definition lookup_or_empty :: "(string \<times> string) list \<Rightarrow> string \<Rightarrow> string" where
  "lookup_or_empty kvs key = (case map_of kvs key of None \<Rightarrow> [] | Some v \<Rightarrow> v)"

definition Param :: "Context \<Rightarrow> string \<Rightarrow> string" where
  "Param c key = lookup_or_empty (req_param (Request c)) key"

text \<open>
  \<^verbatim>\<open>c.GetHeader\<close> is \<^verbatim>\<open>http.Header.Get\<close>: header names are matched without regard
  to the case of their ASCII letters, and the first header of that name gives the value.
  \<open>req_header\<close> holds the headers with their names as they were sent.
\<close>

definition ascii_lower :: "char \<Rightarrow> char" where
  "ascii_lower ch =
     (case map_of (zip ''ABCDEFGHIJKLMNOPQRSTUVWXYZ'' ''abcdefghijklmnopqrstuvwxyz'') ch of
        None \<Rightarrow> ch
      | Some l \<Rightarrow> l)"

definition same_header_name :: "string \<Rightarrow> string \<Rightarrow> bool" where
  "same_header_name a b = (map ascii_lower a = map ascii_lower b)"

definition GetHeader :: "Context \<Rightarrow> string \<Rightarrow> string" where
  "GetHeader c key =
     (case find (\<lambda>kv. same_header_name (fst kv) key) (req_header (Request c)) of
        None \<Rightarrow> []
      | Some kv \<Rightarrow> snd kv)"

definition Query :: "Context \<Rightarrow> string \<Rightarrow> string" where
  "Query c key = lookup_or_empty (req_query (Request c)) key"

definition DefaultQuery :: "Context \<Rightarrow> string \<Rightarrow> string \<Rightarrow> string" where
  "DefaultQuery c key dflt = (case map_of (req_query (Request c)) key of None \<Rightarrow> dflt | Some v \<Rightarrow> v)"

definition Header :: "Context \<Rightarrow> string \<Rightarrow> string \<Rightarrow> Context" where
  "Header c key v = c\<lparr>Writer_header := (Writer_header c)(key \<mapsto> v)\<rparr>"

definition writeContentType :: "Context \<Rightarrow> string \<Rightarrow> Context" where
  "writeContentType c v =
     (case Writer_header c ''Content-Type'' of None \<Rightarrow> Header c ''Content-Type'' v | Some _ \<Rightarrow> c)"

definition JSON :: "Context \<Rightarrow> nat \<Rightarrow> body \<Rightarrow> Context" where
  "JSON c code obj =
     (writeContentType c ''application/json; charset=utf-8'')\<lparr>Writer_status := code, Writer_body := obj\<rparr>"

definition Data :: "Context \<Rightarrow> nat \<Rightarrow> string \<Rightarrow> body \<Rightarrow> Context" where
  "Data c code ctype b = (writeContentType c ctype)\<lparr>Writer_status := code, Writer_body := b\<rparr>"

definition Abort :: "Context \<Rightarrow> Context" where
  "Abort c = c\<lparr>aborted := True\<rparr>"

definition AbortWithStatus :: "Context \<Rightarrow> nat \<Rightarrow> Context" where
  "AbortWithStatus c code = Abort (c\<lparr>Writer_status := code\<rparr>)"

definition AbortWithStatusJSON :: "Context \<Rightarrow> nat \<Rightarrow> body \<Rightarrow> Context" where
  "AbortWithStatusJSON c code obj = JSON (Abort c) code obj"

definition error_H :: "string \<Rightarrow> body" where
  "error_H msg = JSONBody [(''error'', JString msg)]"

section \<open>The application and its collaborators (\<^verbatim>\<open>cmd/api\<close>)\<close>

text \<open>
  \<^verbatim>\<open>type App struct { db; jwt; mailer; wg; rl; secpath1, secpath2; c; apiKey }\<close>.
  The collaborators behind interfaces are the fields of \<open>App\<close>, functions over the state
  they own: the durable store \<^verbatim>\<open>data.DB\<close> over a store state \<open>'d\<close>, the token service
  \<^verbatim>\<open>crypto.Token\<close> (its \<^verbatim>\<open>Extract\<close> reads the clock, so it takes the instant), the
  limiter \<^verbatim>\<open>GetAccess(ip).Allow()\<close> over a limiter state \<open>'l\<close>, the binding validator
  \<^verbatim>\<open>ShouldBindJSON\<close>, gin's debug flag and the two time formatters of \<^verbatim>\<open>list\<close>.
  A Go \<^verbatim>\<open>error\<close> is its message. \<^verbatim>\<open>Save\<close> receives a pointer and overwrites
  the user with the saved one: it returns the new store and the saved user, or the error.
  \<^verbatim>\<open>Create\<close> also receives a pointer; it is taken to leave the user as it was.
  \<^verbatim>\<open>IsPresent\<close> and \<^verbatim>\<open>List\<close> read the store without changing it.
\<close>

record ('d, 'l) App =
  db_IsPresent :: "'d \<Rightarrow> string \<Rightarrow> string + bool"
  db_Save :: "'d \<Rightarrow> User \<Rightarrow> 'd \<times> (string + User)"
  db_List :: "'d \<Rightarrow> int list \<Rightarrow> string + User list"
  jwt_Create :: "User \<Rightarrow> int \<Rightarrow> string + string"
  jwt_Extract :: "int \<Rightarrow> string \<Rightarrow> string + User"
  jwt_Hash :: "string \<Rightarrow> string"
  rl_Allow :: "'l \<Rightarrow> string \<Rightarrow> int \<Rightarrow> bool \<times> 'l"
  ShouldBindJSON :: "string \<Rightarrow> string + User"
  IsDebugging :: bool
  format_timestamp :: "64 word \<Rightarrow> string"
  format_now :: "int \<Rightarrow> string"
  secpath1 :: string
  secpath2 :: string
  apiKey :: string

text \<open>
  What a request can change: the store, the limiter, the presence cache \<^verbatim>\<open>app.c\<close>, the
  mails handed to goroutines under \<^verbatim>\<open>app.wg\<close> (in the order they were started), and a
  log of the calls made on the token service and on the store, oldest first.
\<close>

datatype call =
    CallCreate User int
  | CallHash string
  | CallExtract string
  | CallIsPresent string
  | CallSave User
  | CallList "int list"

datatype task =
    SendActivationEmail string string string
  | SendConfirmationEmail string

record ('d, 'l) state =
  w_db :: 'd
  w_rl :: 'l
  w_c :: Cache
  w_tasks :: "task list"
  w_calls :: "call list"

definition called :: "('d, 'l) state \<Rightarrow> call \<Rightarrow> ('d, 'l) state" where
  "called w x = w\<lparr>w_calls := w_calls w @ [x]\<rparr>"

definition go :: "('d, 'l) state \<Rightarrow> task \<Rightarrow> ('d, 'l) state" where
  "go w t = w\<lparr>w_tasks := w_tasks w @ [t]\<rparr>"

subsection \<open>The token pattern\<close>

text \<open>
  \<^verbatim>\<open>regexp.MustCompile(`^[A-Za-z0-9-_]+\.[A-Za-z0-9-_]+\.[A-Za-z0-9-_]*$`)\<close>.
  The class has no dot, so a match is: a non-empty run of class characters, a dot, a second
  non-empty run, a dot, and class characters to the end.
\<close>

definition jwtchar :: "char \<Rightarrow> bool" where
  "jwtchar ch = (ch \<in> set ''ABCDEFGHIJKLMNOPQRSTUVWXYZabcdefghijklmnopqrstuvwxyz0123456789-_'')"

definition jwtregexp_MatchString :: "string \<Rightarrow> bool" where
  "jwtregexp_MatchString s =
     (let a = takeWhile jwtchar s; r = dropWhile jwtchar s in
      a \<noteq> [] \<and>
      (case r of
         [] \<Rightarrow> False
       | d # r1 \<Rightarrow>
           d = CHR ''.'' \<and>
           (let b = takeWhile jwtchar r1; r2 = dropWhile jwtchar r1 in
            b \<noteq> [] \<and>
            (case r2 of
               [] \<Rightarrow> False
             | d2 # r3 \<Rightarrow> d2 = CHR ''.'' \<and> list_all jwtchar r3))))"

subsection \<open>Handlers\<close>

definition generateSecuredLink :: "string \<Rightarrow> string" where
  "generateSecuredLink t = ''https://unleak.trade/activate/'' @ t"

definition register :: "('d, 'l) App \<Rightarrow> ('d, 'l) state \<times> Context \<Rightarrow> ('d, 'l) state \<times> Context" where
  "register app = (\<lambda>(w, c).
     case ShouldBindJSON app (req_body (Request c)) of
       Inl err \<Rightarrow> (w, JSON c StatusBadRequest (error_H err))
     | Inr u \<Rightarrow>
         let now = req_now (Request c); w1 = called w (CallCreate u now) in
         (case jwt_Create app u now of
            Inl err \<Rightarrow> (w1, JSON c StatusBadRequest (error_H err))
          | Inr token \<Rightarrow>
              let hash = jwt_Hash app token;
                  w2 = called w1 (CallHash token);
                  sl = generateSecuredLink token;
                  w3 = go w2 (SendActivationEmail (Email u) sl hash);
                  r = [(''hash'', JString hash)];
                  r' = (if IsDebugging app then r @ [(''token'', JString token)] else r)
              in (w3, JSON c StatusAccepted (JSONBody r'))))"

definition checkWallet :: "('d, 'l) App \<Rightarrow> ('d, 'l) state \<times> Context \<Rightarrow> ('d, 'l) state \<times> Context" where
  "checkWallet app = (\<lambda>(w, c).
     let a = Param c ''address'' in
     if \<not> Cache_IsPresent (w_c w) a
     then (w, JSON c StatusNotFound (JSONBody [(''registered'', JBool False)]))
     else (w, JSON c StatusOK (JSONBody [(''registered'', JBool True)])))"

definition requireAPIKey :: "('d, 'l) App \<Rightarrow> ('d, 'l) state \<times> Context \<Rightarrow> ('d, 'l) state \<times> Context" where
  "requireAPIKey app = (\<lambda>(w, c).
     let k = GetHeader c ''UNLK-API-KEY'' in
     if k = [] \<or> k \<noteq> apiKey app
     then (w, AbortWithStatusJSON c StatusUnauthorized (error_H ''Unauthorized''))
     else (w, c))"

definition activate :: "('d, 'l) App \<Rightarrow> ('d, 'l) state \<times> Context \<Rightarrow> ('d, 'l) state \<times> Context" where
  "activate app = (\<lambda>(w, c).
     let t = Param c ''token''; h = Param c ''hash'' in
     if \<not> jwtregexp_MatchString t
     then (w, JSON c StatusUnauthorized (error_H ''Unauthorized''))
     else
       let w1 = called w (CallHash t) in
       if jwt_Hash app t \<noteq> h
       then (w1, JSON c StatusUnauthorized (error_H ''Unauthorized''))
       else
         let w2 = called w1 (CallExtract t) in
         (case jwt_Extract app (req_now (Request c)) t of
            Inl err \<Rightarrow> (w2, JSON c StatusUnauthorized (error_H ''Unauthorized''))
          | Inr u \<Rightarrow>
              let w3 = called w2 (CallIsPresent (Address u)) in
              (case db_IsPresent app (w_db w3) (Address u) of
                 Inl err \<Rightarrow> (w3, JSON c StatusInternalServerError (error_H err))
               | Inr ra \<Rightarrow>
                   if ra
                   then (w3, JSON c StatusConflict
                               (error_H (''user address '' @ Address u @ '' already used'')))
                   else
                     let w4 = called w3 (CallIsPresent (Sponsor u)) in
                     (case db_IsPresent app (w_db w4) (Sponsor u) of
                        Inl err \<Rightarrow> (w4, JSON c StatusInternalServerError (error_H err))
                      | Inr rs \<Rightarrow>
                          if \<not> rs
                          then (w4, JSON c StatusBadRequest
                                      (error_H (''sponsor address '' @ Sponsor u @ '' not found'')))
                          else
                            let e = Email u; w5 = called w4 (CallSave u) in
                            (case db_Save app (w_db w5) u of
                               (d', Inl err) \<Rightarrow>
                                 (w5\<lparr>w_db := d'\<rparr>, JSON c StatusInternalServerError (error_H err))
                             | (d', Inr u') \<Rightarrow>
                                 let w6 = w5\<lparr>w_db := d'\<rparr>;
                                     w7 = w6\<lparr>w_c := Cache_Add (w_c w6) (Address u') (Timestamp u')\<rparr>;
                                     w8 = go w7 (SendConfirmationEmail e)
                                 in (w8, JSON c StatusCreated (JSONUser u')))))))"

definition limit :: "('d, 'l) App \<Rightarrow> ('d, 'l) state \<times> Context \<Rightarrow> ('d, 'l) state \<times> Context" where
  "limit app = (\<lambda>(w, c).
     let ip = req_ClientIP (Request c);
         (ok, l') = rl_Allow app (w_rl w) ip (req_now (Request c));
         w1 = w\<lparr>w_rl := l'\<rparr>
     in if \<not> ok
        then (w1, AbortWithStatusJSON c StatusTooManyRequests
                    (JSONBody [(''error'', JString ''Too Many Requests''), (''ip'', JString ip)]))
        else (w1, c))"

definition cors :: "('d, 'l) App \<Rightarrow> ('d, 'l) state \<times> Context \<Rightarrow> ('d, 'l) state \<times> Context" where
  "cors app = (\<lambda>(w, c).
     let c1 = Header c ''Access-Control-Allow-Origin'' ''*'';
         c2 = Header c1 ''Access-Control-Allow-Credentials'' ''true'';
         c3 = Header c2 ''Access-Control-Allow-Headers'' ''origin, content-type, accept, authorization'';
         c4 = Header c3 ''Access-Control-Allow-Methods'' ''GET, POST, OPTIONS''
     in if req_method (Request c4) = ''OPTIONS''
        then (w, AbortWithStatus c4 StatusNoContent)
        else (w, c4))"

text \<open>
  \<^verbatim>\<open>strconv.Atoi\<close>: an optional sign, then one or more decimal digits, within the range
  of a 64-bit \<^verbatim>\<open>int\<close>; \<open>None\<close> is the error.
\<close>

definition isdigit :: "char \<Rightarrow> bool" where
  "isdigit ch = (ch \<in> set ''0123456789'')"

definition digit_val :: "char \<Rightarrow> int" where
  "digit_val ch = int (of_char ch) - 48"

definition Atoi :: "string \<Rightarrow> int option" where
  "Atoi s =
     (let neg = (case s of [] \<Rightarrow> False | ch # _ \<Rightarrow> ch = CHR ''-'');
          ds = (case s of [] \<Rightarrow> [] | ch # r \<Rightarrow> if ch = CHR ''-'' \<or> ch = CHR ''+'' then r else s)
      in if ds = [] \<or> \<not> list_all isdigit ds then None
         else
           let n = foldl (\<lambda>a ch. a * 10 + digit_val ch) 0 ds;
               v = (if neg then - n else n)
           in if v < - (2 ^ 63) \<or> 2 ^ 63 \<le> v then None else Some v)"

definition csv_row :: "('d, 'l) App \<Rightarrow> User \<Rightarrow> string list" where
  "csv_row app u = [Address u, Email u, UUID u, format_timestamp app (Timestamp u), Sponsor u]"

definition list_handler :: "('d, 'l) App \<Rightarrow> ('d, 'l) state \<times> Context \<Rightarrow> ('d, 'l) state \<times> Context" where
  "list_handler app = (\<lambda>(w, c).
     let p1 = Param c ''path1''; p2 = Param c ''path2'' in
     if p1 \<noteq> secpath1 app \<or> p2 \<noteq> secpath2 app
     then (w, AbortWithStatus c StatusNotFound)
     else
       let offset = Query c ''offset'' in
       (case (if offset \<noteq> [] then map_option (\<lambda>v. [v]) (Atoi offset) else Some []) of
          None \<Rightarrow> (w, AbortWithStatus c StatusBadRequest)
        | Some options \<Rightarrow>
            let max = Query c ''max'' in
            (case (if max \<noteq> []
                   then (case Atoi max of
                           None \<Rightarrow> None
                         | Some v \<Rightarrow> if offset = [] then None else Some (options @ [v]))
                   else Some options) of
               None \<Rightarrow> (w, AbortWithStatus c StatusBadRequest)
             | Some options' \<Rightarrow>
                 let w1 = called w (CallList options') in
                 (case db_List app (w_db w1) options' of
                    Inl err \<Rightarrow> (w1, JSON c StatusInternalServerError (error_H err))
                  | Inr users \<Rightarrow>
                      let mime = DefaultQuery c ''mime'' ''json'' in
                      if mime = ''csv''
                      then
                        let rows = [''address'', ''email'', ''uuid'', ''timestamp'', ''sponsor'']
                                     # map (csv_row app) users;
                            c1 = Header c ''Content-Description'' ''File Transfer'';
                            c2 = Header c1 ''Content-Disposition''
                                   (''attachment; filename=users_list_''
                                      @ format_now app (req_now (Request c)) @ ''.csv'')
                        in (w1, Data c2 StatusOK ''text/csv'' (CSVBody rows))
                      else
                        (w1, JSON c StatusOK
                               (JSONBody [(''users'', JUsers users),
                                          (''count'', JInt (int (length users)))]))))))"

definition health :: "('d, 'l) App \<Rightarrow> ('d, 'l) state \<times> Context \<Rightarrow> ('d, 'l) state \<times> Context" where
  "health app = (\<lambda>(w, c). (w, JSON c StatusOK (JSONBody [(''status'', JString ''ok'')])))"

subsection \<open>The router\<close>

text \<open>
  \<^verbatim>\<open>setupRouter\<close> registers five operations in one group, behind the middleware
  \<^verbatim>\<open>api.Use(app.cors, app.limit, app.requireAPIKey)\<close>. gin runs the chain in order and
  stops after a handler that aborted.
\<close>

datatype route = GET_health | GET_list | POST_register | POST_activate | GET_check_wallet

fun handler :: "('d, 'l) App \<Rightarrow> route \<Rightarrow> ('d, 'l) state \<times> Context \<Rightarrow> ('d, 'l) state \<times> Context" where
  "handler app GET_health = health app"
| "handler app GET_list = list_handler app"
| "handler app POST_register = register app"
| "handler app POST_activate = activate app"
| "handler app GET_check_wallet = checkWallet app"

fun run_handlers ::
  "(('d, 'l) state \<times> Context \<Rightarrow> ('d, 'l) state \<times> Context) list
     \<Rightarrow> ('d, 'l) state \<times> Context \<Rightarrow> ('d, 'l) state \<times> Context" where
  "run_handlers [] wc = wc"
| "run_handlers (h # hs) wc = (if aborted (snd wc) then wc else run_handlers hs (h wc))"

definition serve :: "('d, 'l) App \<Rightarrow> route \<Rightarrow> ('d, 'l) state \<Rightarrow> request \<Rightarrow> ('d, 'l) state \<times> Context" where
  "serve app rt w r =
     run_handlers [cors app, limit app, requireAPIKey app, handler app rt] (w, NewContext r)"

section \<open>Admission limiter\<close>

text \<open>
  Modelled from the spec: \<^verbatim>\<open>internal/limiter\<close> is not among the sources; only its calls
  \<^verbatim>\<open>limiter.New(0.1, 10)\<close>, \<^verbatim>\<open>limiter.NewUnlimited()\<close> and
  \<^verbatim>\<open>GetAccess(ip).Allow()\<close> are. Section 4.2: the first call for an unseen key creates a
  counter with the configured steady rate and burst; calls consume one unit from the key's
  budget, which refills continuously up to the burst; a call returns false once the budget is
  exhausted, true and one unit less otherwise. The rate is \<open>rate_num / rate_den\<close> units per
  millisecond and the budget is kept in units of \<open>1 / rate_den\<close>, so the arithmetic is exact.
\<close>

record limiter_entry =
  budget :: int
  lastAccess :: int

record RateLimiter =
  rate_num :: int
  rate_den :: int
  burst :: int
  entries :: "string \<rightharpoonup> limiter_entry"

definition limiter_New :: "int \<Rightarrow> int \<Rightarrow> int \<Rightarrow> RateLimiter" where
  "limiter_New num den b = \<lparr>rate_num = num, rate_den = den, burst = b, entries = Map.empty\<rparr>"

text \<open>
  Modelled from the spec: \<^verbatim>\<open>GetAccess(key).Allow()\<close> of the absent \<^verbatim>\<open>internal/limiter\<close>,
  at the instant \<open>now\<close> in milliseconds.
\<close>

definition limiter_Allow :: "RateLimiter \<Rightarrow> string \<Rightarrow> int \<Rightarrow> bool \<times> RateLimiter" where
  "limiter_Allow rl key now =
     (let full = burst rl * rate_den rl;
          e = (case entries rl key of
                 None \<Rightarrow> \<lparr>budget = full, lastAccess = now\<rparr>
               | Some e \<Rightarrow> e);
          b = min full (budget e + rate_num rl * max 0 (now - lastAccess e))
      in if rate_den rl \<le> b
         then (True, rl\<lparr>entries := (entries rl)(key \<mapsto> \<lparr>budget = b - rate_den rl, lastAccess = now\<rparr>)\<rparr>)
         else (False, rl\<lparr>entries := (entries rl)(key \<mapsto> \<lparr>budget = b, lastAccess = now\<rparr>)\<rparr>))"

text \<open>The unlimited variant keeps no state and always admits.\<close>

definition Unlimited_Allow :: "unit \<Rightarrow> string \<Rightarrow> int \<Rightarrow> bool \<times> unit" where
  "Unlimited_Allow l key now = (True, ())"

section \<open>Token service\<close>

text \<open>
  Modelled from the spec: \<^verbatim>\<open>internal/crypto/token.go\<close> (\<^verbatim>\<open>Create\<close>, the generic
  \<^verbatim>\<open>extract\<close> and \<^verbatim>\<open>hash\<close>) is not among the sources; only its tests and the wrapper
  \<^verbatim>\<open>JWTHMAC.Extract\<close>, which calls \<^verbatim>\<open>extract[*jwt.SigningMethodHMAC](token, j.k)\<close>, are.
  Sections 3 and 4.1: candidate claims are \<open>identity\<close>, \<open>contact\<close> and \<open>referrer\<close>; a token
  carries them with an issuer tag and the service-managed instants; a service instance is bound
  to one key and one algorithm. Instants are Unix nanoseconds, the resolution of Go's
  \<^verbatim>\<open>time.Time\<close>; the window is the ten minutes of the reference deployment.
\<close>

datatype algorithm = HS256 | HS512 | ES256 | ES512

datatype family = Symmetric | Asymmetric

fun family_of :: "algorithm \<Rightarrow> family" where
  "family_of HS256 = Symmetric"
| "family_of HS512 = Symmetric"
| "family_of ES256 = Asymmetric"
| "family_of ES512 = Asymmetric"

record candidate =
  identity :: string
  contact :: string
  referrer :: string

record token_claims =
  subject :: candidate
  issuer :: string
  issuedAt :: int
  notBefore :: int
  expiresAt :: int

record signed_token =
  tok_alg :: algorithm
  tok_claims :: token_claims
  tok_signature :: string

text \<open>
  The signing library is outside the repository: signing (\<open>None\<close> is a signing or
  serialisation fault), signature verification, and the codec between a signed token and
  its string.
\<close>

record jwtlib =
  sign :: "algorithm \<Rightarrow> string \<Rightarrow> token_claims \<Rightarrow> string option"
  verify :: "algorithm \<Rightarrow> string \<Rightarrow> token_claims \<Rightarrow> string \<Rightarrow> bool"
  encode :: "signed_token \<Rightarrow> string"
  decode :: "string \<Rightarrow> signed_token option"

record service =
  svc_alg :: algorithm
  svc_key :: string

datatype token_error = InvalidToken | SigningFault

definition second :: int where
  "second = 1000000000"

definition fixedWindow :: int where
  "fixedWindow = 600 * second"

text \<open>
  A token carries its instants in whole seconds. The vector of \<^verbatim>\<open>TestCreateHMAC\<close> fixes
  the rounding: \<^verbatim>\<open>Create\<close> at \<^verbatim>\<open>time.UnixMicro(1647952128425)\<close>, that is 1647952.128425 s,
  must give the token whose payload has \<^verbatim>\<open>"exp":1648552,"nbf":1647952,"iat":1647952\<close>. The
  stamped instant is the issuance instant rounded down to the second.
\<close>

definition whole_second :: "int \<Rightarrow> int" where
  "whole_second t = (t div second) * second"

definition issuer_tag :: string where
  "issuer_tag = ''unleak.trade''"

text \<open>
  Modelled from the spec: \<^verbatim>\<open>Create\<close> of the absent \<^verbatim>\<open>token.go\<close>. It stamps
  \<open>issuedAt = now\<close>, \<open>notBefore = now\<close>, \<open>expiresAt = now + fixedWindow\<close>, with \<open>now\<close> in
  the whole seconds a token carries, adds the issuer, and signs with the key and algorithm of
  the instance; it fails only on a signing fault and does not check that the claims are
  complete.
\<close>

definition stamp :: "candidate \<Rightarrow> int \<Rightarrow> token_claims" where
  "stamp cand now =
     \<lparr>subject = cand, issuer = issuer_tag, issuedAt = whole_second now,
      notBefore = whole_second now, expiresAt = whole_second now + fixedWindow\<rparr>"

definition Create :: "jwtlib \<Rightarrow> service \<Rightarrow> candidate \<Rightarrow> int \<Rightarrow> token_error + string" where
  "Create lib svc cand now =
     (let cl = stamp cand now in
      case sign lib (svc_alg svc) (svc_key svc) cl of
        None \<Rightarrow> Inl SigningFault
      | Some sg \<Rightarrow> Inr (encode lib \<lparr>tok_alg = svc_alg svc, tok_claims = cl, tok_signature = sg\<rparr>))"

text \<open>
  Modelled from the spec: the generic \<^verbatim>\<open>extract\<close> of the absent \<^verbatim>\<open>token.go\<close>. It
  verifies the signature with the algorithm family bound to the instance, then
  \<open>notBefore \<le> now < expiresAt\<close>, then that identity, contact and referrer are non-empty.
  \<open>examine\<close> names the reason of a failure; \<open>Extract\<close> is what the caller sees, every
  failure being the one \<open>InvalidToken\<close>.
\<close>

datatype rejection = Malformed | WrongAlgorithm | BadSignature | NotYetValid | Expired | MissingClaim

definition examine :: "jwtlib \<Rightarrow> service \<Rightarrow> int \<Rightarrow> string \<Rightarrow> rejection + candidate" where
  "examine lib svc now s =
     (case decode lib s of
        None \<Rightarrow> Inl Malformed
      | Some tok \<Rightarrow>
          let cl = tok_claims tok; cand = subject cl in
          if family_of (tok_alg tok) \<noteq> family_of (svc_alg svc) then Inl WrongAlgorithm
          else if \<not> verify lib (tok_alg tok) (svc_key svc) cl (tok_signature tok) then Inl BadSignature
          else if now < notBefore cl then Inl NotYetValid
          else if expiresAt cl \<le> now then Inl Expired
          else if identity cand = [] \<or> contact cand = [] \<or> referrer cand = [] then Inl MissingClaim
          else Inr cand)"

definition Extract :: "jwtlib \<Rightarrow> service \<Rightarrow> int \<Rightarrow> string \<Rightarrow> token_error + candidate" where
  "Extract lib svc now s =
     (case examine lib svc now s of
        Inl _ \<Rightarrow> Inl InvalidToken
      | Inr cand \<Rightarrow> Inr cand)"

section \<open>Fixtures\<close>

text \<open>
  Concrete collaborators in the manner of the repository's tests (\<^verbatim>\<open>TestActivate\<close>,
  \<^verbatim>\<open>TestRegister\<close>): a store that is the list of the known addresses, a token service
  that knows one token, a binder that accepts one body, the test API key and secret paths.
\<close>

definition MockDB_IsPresent :: "string list \<Rightarrow> string \<Rightarrow> string + bool" where
  "MockDB_IsPresent d a = Inr (a \<in> set d)"

definition MockDB_Save :: "string list \<Rightarrow> User \<Rightarrow> string list \<times> (string + User)" where
  "MockDB_Save d u = (d @ [Address u], Inr u)"

definition MockDB_List :: "string list \<Rightarrow> int list \<Rightarrow> string + User list" where
  "MockDB_List d opts =
     Inr (map (\<lambda>a. \<lparr>Address = a, Email = [], UUID = [], Timestamp = 0, Sponsor = []\<rparr>) d)"

definition john :: User where
  "john = \<lparr>Address = ''5tsrsspeS4AR'', Email = ''john.doe@mailservice.com'', UUID = ''uuid-1'',
           Timestamp = 1700000000000, Sponsor = ''9mf2bkJf5Teb''\<rparr>"

definition stub_Create :: "User \<Rightarrow> int \<Rightarrow> string + string" where
  "stub_Create u now = (if Address u = [] then Inl ''signing fault'' else Inr ''eyJ.abc.sig'')"

definition stub_Extract :: "int \<Rightarrow> string \<Rightarrow> string + User" where
  "stub_Extract now t = (if t = ''eyJ.abc.sig'' then Inr john else Inl ''invalid token'')"

definition stub_Hash :: "string \<Rightarrow> string" where
  "stub_Hash t = rev t"

definition stub_ShouldBindJSON :: "string \<Rightarrow> string + User" where
  "stub_ShouldBindJSON b =
     (if b = ''john''
      then Inr \<lparr>Address = ''5tsrsspeS4AR'', Email = ''john.doe@mailservice.com'', UUID = [],
                Timestamp = 0, Sponsor = ''9mf2bkJf5Teb''\<rparr>
      else Inl ''Field validation for Address failed on the required tag'')"

definition TestApp :: "('l \<Rightarrow> string \<Rightarrow> int \<Rightarrow> bool \<times> 'l) \<Rightarrow> (string list, 'l) App" where
  "TestApp allow =
     \<lparr>db_IsPresent = MockDB_IsPresent, db_Save = MockDB_Save, db_List = MockDB_List,
      jwt_Create = stub_Create, jwt_Extract = stub_Extract, jwt_Hash = stub_Hash,
      rl_Allow = allow, ShouldBindJSON = stub_ShouldBindJSON, IsDebugging = False,
      format_timestamp = (\<lambda>ts. []), format_now = (\<lambda>now. []),
      secpath1 = ''path1'', secpath2 = ''path2'', apiKey = ''test-api-key''\<rparr>"

definition TestState :: "string list \<Rightarrow> 'l \<Rightarrow> (string list, 'l) state" where
  "TestState known l = \<lparr>w_db = known, w_rl = l, w_c = Cache_New, w_tasks = [], w_calls = []\<rparr>"

definition activate_request :: "string \<Rightarrow> string \<Rightarrow> request" where
  "activate_request t h =
     \<lparr>req_method = ''POST'', req_header = [(''UNLK-API-KEY'', ''test-api-key'')],
      req_param = [(''token'', t), (''hash'', h)], req_query = [], req_body = [],
      req_ClientIP = ''192.0.2.1'', req_now = 0\<rparr>"

definition register_request :: "string \<Rightarrow> request" where
  "register_request b =
     \<lparr>req_method = ''POST'', req_header = [(''UNLK-API-KEY'', ''test-api-key'')],
      req_param = [], req_query = [], req_body = b,
      req_ClientIP = ''192.0.2.1'', req_now = 0\<rparr>"

text \<open>The issuance instant of the vector of \<^verbatim>\<open>TestCreateHMAC\<close>, in nanoseconds.\<close>

definition vector_instant :: int where
  "vector_instant = 1647952128425000"

definition toy_token :: signed_token where
  "toy_token =
     \<lparr>tok_alg = HS256,
      tok_claims = stamp \<lparr>identity = ''5tsrsspeS4AR'', contact = ''john.doe@mailservice.com'',
                         referrer = ''9mf2bkJf5Teb''\<rparr> vector_instant,
      tok_signature = ''secret''\<rparr>"

definition toy_lib :: jwtlib where
  "toy_lib =
     \<lparr>sign = (\<lambda>a k cl. if k = [] then None else Some k),
      verify = (\<lambda>a k cl sg. sg = k),
      encode = (\<lambda>tok. if tok = toy_token then ''eyJ.abc.sig'' else ''eyJ.other.sig''),
      decode = (\<lambda>s. if s = ''eyJ.abc.sig'' then Some toy_token
                     else if s = ''eyJ.anon.sig''
                     then Some (toy_token\<lparr>tok_claims := stamp \<lparr>identity = [], contact = ''john.doe@mailservice.com'',
                                                                 referrer = ''9mf2bkJf5Teb''\<rparr> vector_instant\<rparr>)
                     else None)\<rparr>"

definition toy_service :: service where
  "toy_service = \<lparr>svc_alg = HS256, svc_key = ''secret''\<rparr>"

definition health_request :: "(string \<times> string) list \<Rightarrow> request" where
  "health_request hdrs =
     \<lparr>req_method = ''GET'', req_header = hdrs, req_param = [], req_query = [], req_body = [],
      req_ClientIP = ''192.0.2.1'', req_now = 0\<rparr>"

text \<open>The state after \<open>n\<close> requests in a row, each served from the state the last one left.\<close>

fun serve_n :: "('d, 'l) App \<Rightarrow> route \<Rightarrow> nat \<Rightarrow> ('d, 'l) state \<Rightarrow> request \<Rightarrow> ('d, 'l) state" where
  "serve_n app rt 0 w r = w"
| "serve_n app rt (Suc n) w r = serve_n app rt n (fst (serve app rt w r)) r"

text \<open>The calls of the log that go to the durable store.\<close>

definition is_store_call :: "call \<Rightarrow> bool" where
  "is_store_call x =
     (case x of CallIsPresent _ \<Rightarrow> True | CallSave _ \<Rightarrow> True | CallList _ \<Rightarrow> True | _ \<Rightarrow> False)"

section \<open>Unfolding rules\<close>

lemmas Status_defs =
  StatusOK_def StatusCreated_def StatusAccepted_def StatusNoContent_def StatusBadRequest_def
  StatusUnauthorized_def StatusNotFound_def StatusConflict_def StatusPreconditionFailed_def
  StatusTooManyRequests_def StatusInternalServerError_def

lemmas ctx_defs = Param_def GetHeader_def Query_def DefaultQuery_def lookup_or_empty_def
  JSON_def Data_def Header_def writeContentType_def Abort_def AbortWithStatus_def
  AbortWithStatusJSON_def error_H_def NewContext_def

lemmas fixture_defs = TestApp_def TestState_def activate_request_def register_request_def
  MockDB_IsPresent_def MockDB_Save_def MockDB_List_def stub_Create_def stub_Extract_def
  stub_Hash_def stub_ShouldBindJSON_def john_def Unlimited_Allow_def Cache_New_def
  health_request_def

lemma JSON_status [simp]: "Writer_status (JSON c code obj) = code"
  by (simp add: JSON_def writeContentType_def Header_def split: option.splits)

lemma JSON_body [simp]: "Writer_body (JSON c code obj) = obj"
  by (simp add: JSON_def writeContentType_def Header_def split: option.splits)

lemma matches_abc: "jwtregexp_MatchString ''eyJ.abc.sig''"
  by (simp add: jwtregexp_MatchString_def jwtchar_def)

section \<open>The token pattern as a set of strings\<close>

text \<open>
  The matcher accepts exactly the strings \<open>a.b.c\<close> with \<open>a\<close> and \<open>b\<close> non-empty and
  \<open>a\<close>, \<open>b\<close>, \<open>c\<close> made of class characters: the language of the regular expression.
\<close>

lemma dot_not_jwtchar: "\<not> jwtchar CHR ''.''"
  by (simp add: jwtchar_def)

lemma takeWhile_run:
  "list_all P a \<Longrightarrow> \<not> P d \<Longrightarrow> takeWhile P (a @ d # r) = a"
  by (induction a) auto

lemma dropWhile_run:
  "list_all P a \<Longrightarrow> \<not> P d \<Longrightarrow> dropWhile P (a @ d # r) = d # r"
  by (induction a) auto

lemma list_all_takeWhile: "list_all P (takeWhile P s)"
  by (induction s) auto

lemma jwtregexp_MatchString_iff:
  "jwtregexp_MatchString s \<longleftrightarrow>
     (\<exists>a b c. s = a @ ''.'' @ b @ ''.'' @ c \<and> a \<noteq> [] \<and> b \<noteq> []
        \<and> list_all jwtchar a \<and> list_all jwtchar b \<and> list_all jwtchar c)"
proof
  assume m: "jwtregexp_MatchString s"
  let ?a = "takeWhile jwtchar s"
  from m obtain r1 where r: "dropWhile jwtchar s = CHR ''.'' # r1" and a: "?a \<noteq> []"
    by (auto simp: jwtregexp_MatchString_def Let_def split: list.splits)
  let ?b = "takeWhile jwtchar r1"
  from m r obtain r3 where r2: "dropWhile jwtchar r1 = CHR ''.'' # r3" and b: "?b \<noteq> []"
      and c: "list_all jwtchar r3"
    by (auto simp: jwtregexp_MatchString_def Let_def split: list.splits)
  have "s = ?a @ dropWhile jwtchar s" by simp
  also have "\<dots> = ?a @ ''.'' @ r1" using r by simp
  also have "r1 = ?b @ dropWhile jwtchar r1" by simp
  also have "\<dots> = ?b @ ''.'' @ r3" using r2 by simp
  finally have "s = ?a @ ''.'' @ ?b @ ''.'' @ r3" .
  with a b c show "\<exists>a b c. s = a @ ''.'' @ b @ ''.'' @ c \<and> a \<noteq> [] \<and> b \<noteq> []
        \<and> list_all jwtchar a \<and> list_all jwtchar b \<and> list_all jwtchar c"
    using list_all_takeWhile by blast
next
  assume "\<exists>a b c. s = a @ ''.'' @ b @ ''.'' @ c \<and> a \<noteq> [] \<and> b \<noteq> []
        \<and> list_all jwtchar a \<and> list_all jwtchar b \<and> list_all jwtchar c"
  then obtain a b c where s: "s = a @ CHR ''.'' # b @ CHR ''.'' # c" and "a \<noteq> []" "b \<noteq> []"
      and "list_all jwtchar a" "list_all jwtchar b" "list_all jwtchar c"
    by auto
  then show "jwtregexp_MatchString s"
    using dot_not_jwtchar
    by (simp add: jwtregexp_MatchString_def Let_def takeWhile_run dropWhile_run)
qed

section \<open>The middleware chain\<close>

lemma GetHeader_any_case:
  "GetHeader (NewContext (health_request [(''unlk-api-key'', ''test-api-key'')])) ''UNLK-API-KEY''
     = ''test-api-key''"
  by (simp add: GetHeader_def NewContext_def health_request_def same_header_name_def ascii_lower_def)

lemma Header_Request [simp]: "Request (Header c k v) = Request c"
  by (simp add: Header_def)

lemma Header_aborted [simp]: "aborted (Header c k v) = aborted c"
  by (simp add: Header_def)

lemma GetHeader_Header [simp]: "GetHeader (Header c k v) key = GetHeader c key"
  by (simp add: GetHeader_def)

lemma NewContext_sel [simp]: "aborted (NewContext r) = False" "Request (NewContext r) = r"
  by (simp_all add: NewContext_def)

lemma AbortWithStatusJSON_sel [simp]:
  "aborted (AbortWithStatusJSON c code obj) = True"
  "Writer_status (AbortWithStatusJSON c code obj) = code"
  "Writer_body (AbortWithStatusJSON c code obj) = obj"
  by (simp_all add: AbortWithStatusJSON_def JSON_def Abort_def writeContentType_def Header_def
        split: option.splits)

lemma cors_passes:
  "req_method (Request c) \<noteq> ''OPTIONS'' \<Longrightarrow>
   \<exists>c'. cors app (w, c) = (w, c') \<and> Request c' = Request c \<and> aborted c' = aborted c
        \<and> GetHeader c' = GetHeader c"
  by (simp add: cors_def Let_def fun_eq_iff)

lemma limit_step:
  "limit app (w, c) =
     (w\<lparr>w_rl := snd (rl_Allow app (w_rl w) (req_ClientIP (Request c)) (req_now (Request c)))\<rparr>,
      if fst (rl_Allow app (w_rl w) (req_ClientIP (Request c)) (req_now (Request c))) then c
      else AbortWithStatusJSON c StatusTooManyRequests
             (JSONBody [(''error'', JString ''Too Many Requests''),
                        (''ip'', JString (req_ClientIP (Request c)))]))"
  by (simp add: limit_def Let_def split: prod.splits)

lemma requireAPIKey_denies:
  "GetHeader c ''UNLK-API-KEY'' = [] \<or> GetHeader c ''UNLK-API-KEY'' \<noteq> apiKey app \<Longrightarrow>
   requireAPIKey app (w, c) = (w, AbortWithStatusJSON c StatusUnauthorized (error_H ''Unauthorized''))"
  by (auto simp: requireAPIKey_def Let_def)

lemma serve_denied:
  assumes m: "req_method r \<noteq> ''OPTIONS''"
    and k: "GetHeader (NewContext r) ''UNLK-API-KEY'' = []
         \<or> GetHeader (NewContext r) ''UNLK-API-KEY'' \<noteq> apiKey app"
  shows "\<exists>c'. Request c' = r \<and> \<not> aborted c' \<and> GetHeader c' = GetHeader (NewContext r)
          \<and> serve app rt w r =
             (w\<lparr>w_rl := snd (rl_Allow app (w_rl w) (req_ClientIP r) (req_now r))\<rparr>,
              if fst (rl_Allow app (w_rl w) (req_ClientIP r) (req_now r))
              then AbortWithStatusJSON c' StatusUnauthorized (error_H ''Unauthorized'')
              else AbortWithStatusJSON c' StatusTooManyRequests
                     (JSONBody [(''error'', JString ''Too Many Requests''),
                                (''ip'', JString (req_ClientIP r))]))"
proof -
  from m obtain c' where c': "cors app (w, NewContext r) = (w, c')" "Request c' = r"
      "aborted c' = False" "GetHeader c' = GetHeader (NewContext r)"
    using cors_passes[of "NewContext r" app w] by auto
  from k c'(4) have k': "GetHeader c' ''UNLK-API-KEY'' = [] \<or> GetHeader c' ''UNLK-API-KEY'' \<noteq> apiKey app"
    by simp
  show ?thesis
    apply (rule exI[of _ c'])
    using c' requireAPIKey_denies[OF k']
    by (simp add: serve_def limit_step)
qed


lemma serve_denied_state:
  assumes "req_method r \<noteq> ''OPTIONS''"
    and "GetHeader (NewContext r) ''UNLK-API-KEY'' = []
         \<or> GetHeader (NewContext r) ''UNLK-API-KEY'' \<noteq> apiKey app"
  shows "fst (serve app rt w r)
           = w\<lparr>w_rl := snd (rl_Allow app (w_rl w) (req_ClientIP r) (req_now r))\<rparr>"
  using serve_denied[OF assms, of rt w] by auto

lemma serve_denied_response:
  assumes "req_method r \<noteq> ''OPTIONS''"
    and "GetHeader (NewContext r) ''UNLK-API-KEY'' = []
         \<or> GetHeader (NewContext r) ''UNLK-API-KEY'' \<noteq> apiKey app"
  shows "aborted (snd (serve app rt w r))"
    and "Writer_status (snd (serve app rt w r))
           = (if fst (rl_Allow app (w_rl w) (req_ClientIP r) (req_now r))
              then StatusUnauthorized else StatusTooManyRequests)"
    and "Writer_body (snd (serve app rt w r))
           = (if fst (rl_Allow app (w_rl w) (req_ClientIP r) (req_now r))
              then error_H ''Unauthorized''
              else JSONBody [(''error'', JString ''Too Many Requests''),
                             (''ip'', JString (req_ClientIP r))])"
  using serve_denied[OF assms, of rt w] by auto

lemma serve_denied_any_route:
  assumes "req_method r \<noteq> ''OPTIONS''"
    and "GetHeader (NewContext r) ''UNLK-API-KEY'' = []
         \<or> GetHeader (NewContext r) ''UNLK-API-KEY'' \<noteq> apiKey app"
  shows "serve app rt w r = serve app rt' w r"
  using assms by (simp add: serve_def cors_def Let_def limit_step requireAPIKey_denies)

lemma serve_n_numeral:
  "serve_n app rt (numeral k) w r = serve_n app rt (pred_numeral k) (fst (serve app rt w r)) r"
  by (simp add: numeral_eq_Suc)

lemma keyless_health_request:
  "req_method (health_request []) \<noteq> ''OPTIONS''"
  "GetHeader (NewContext (health_request [])) ''UNLK-API-KEY'' = []
     \<or> GetHeader (NewContext (health_request [])) ''UNLK-API-KEY'' \<noteq> apiKey app"
  by (simp_all add: health_request_def GetHeader_def lookup_or_empty_def NewContext_def)

lemma serve_keyless:
  "fst (serve (TestApp limiter_Allow) rt w (health_request []))
     = w\<lparr>w_rl := snd (limiter_Allow (w_rl w) ''192.0.2.1'' 0)\<rparr>"
  "Writer_status (snd (serve (TestApp limiter_Allow) rt w (health_request [])))
     = (if fst (limiter_Allow (w_rl w) ''192.0.2.1'' 0)
        then StatusUnauthorized else StatusTooManyRequests)"
  using serve_denied_state[OF keyless_health_request, of "TestApp limiter_Allow" rt w]
        serve_denied_response(2)[OF keyless_health_request, of "TestApp limiter_Allow" rt w]
  by (simp_all add: TestApp_def health_request_def)

section \<open>Properties of the presence cache\<close>

text \<open>
  C7. After \<^verbatim>\<open>Fill(S)\<close> the cache answers \<^verbatim>\<open>IsPresent(k)\<close> with true exactly for
  the keys of \<open>S\<close>, whatever the cache held before; after \<^verbatim>\<open>Fill(nil)\<close> or
  \<^verbatim>\<open>Fill\<close> of an empty map it answers false for every key, as a new cache does.
\<close>

theorem Cache_Fill_IsPresent:
  "Cache_IsPresent (Cache_Fill c (Some S)) k = (k \<in> dom S)
   \<and> Cache_IsPresent (Cache_Fill c None) k = False
   \<and> Cache_IsPresent (Cache_Fill c (Some Map.empty)) k = False
   \<and> Cache_Fill c None = Cache_Fill c (Some Map.empty)
   \<and> Cache_IsPresent (Cache_Fill c None) k = Cache_IsPresent Cache_New k"
  by (auto simp: Cache_IsPresent_def Cache_Fill_def Cache_New_def split: option.splits)

section \<open>Properties of activation\<close>

text \<open>
  C1. When the token does not match the token pattern, or its fingerprint differs from the
  supplied one, \<^verbatim>\<open>activate\<close> answers 401 Unauthorized and \<^verbatim>\<open>Extract\<close> is not called:
  the only call made is \<^verbatim>\<open>Hash\<close> (and none when the pattern fails), the store, the cache
  and the mail tasks are untouched, and the outcome is the same whatever \<^verbatim>\<open>Extract\<close> is.
\<close>

theorem activate_fingerprint_first:
  assumes "\<not> jwtregexp_MatchString (Param c ''token'')
           \<or> jwt_Hash app (Param c ''token'') \<noteq> Param c ''hash''"
  shows "snd (activate app (w, c)) = JSON c StatusUnauthorized (error_H ''Unauthorized'')
       \<and> w_calls (fst (activate app (w, c)))
           = w_calls w @ (if jwtregexp_MatchString (Param c ''token'')
                          then [CallHash (Param c ''token'')] else [])
       \<and> (\<forall>x. CallExtract x
              \<notin> set (drop (length (w_calls w)) (w_calls (fst (activate app (w, c))))))
       \<and> w_db (fst (activate app (w, c))) = w_db w
       \<and> w_c (fst (activate app (w, c))) = w_c w
       \<and> w_tasks (fst (activate app (w, c))) = w_tasks w
       \<and> activate (app\<lparr>jwt_Extract := ex\<rparr>) (w, c) = activate app (w, c)"
  using assms by (auto simp: activate_def called_def Let_def)

theorem activate_fingerprint_first_witness:
  "Writer_status (snd (activate (TestApp Unlimited_Allow)
       (TestState [''9mf2bkJf5Teb''] (), NewContext (activate_request ''eyJ.abc.sig'' ''hA5h''))))
     = StatusUnauthorized
   \<and> w_calls (fst (activate (TestApp Unlimited_Allow)
       (TestState [''9mf2bkJf5Teb''] (), NewContext (activate_request ''eyJ.abc.sig'' ''hA5h''))))
     = [CallHash ''eyJ.abc.sig'']"
proof -
  let ?c = "NewContext (activate_request ''eyJ.abc.sig'' ''hA5h'')"
  have h: "\<not> jwtregexp_MatchString (Param ?c ''token'')
           \<or> jwt_Hash (TestApp Unlimited_Allow) (Param ?c ''token'') \<noteq> Param ?c ''hash''"
    by (simp add: ctx_defs fixture_defs)
  from activate_fingerprint_first[OF h, of "TestState [''9mf2bkJf5Teb''] ()"] matches_abc
  show ?thesis
    by (simp add: ctx_defs fixture_defs)
qed

text \<open>
  C4. Once the fingerprint and \<^verbatim>\<open>Extract\<close> checks pass, the first store call asks for the
  token's address, and what the store answers decides: a known address gives 409 Conflict at
  once, whether the sponsor is known or not, and 409 is given in no other case; a store error
  gives 500; only for an unknown address is the sponsor asked for, as the next call, and then
  the sponsor's answer decides between 400, 500 and the call of \<^verbatim>\<open>Save\<close>.
\<close>

theorem activate_identity_before_referrer:
  assumes "jwtregexp_MatchString (Param c ''token'')"
    and "jwt_Hash app (Param c ''token'') = Param c ''hash''"
    and "jwt_Extract app (req_now (Request c)) (Param c ''token'') = Inr u"
  shows "(\<exists>rest. w_calls (fst (activate app (w, c)))
                  = w_calls w @ [CallHash (Param c ''token''), CallExtract (Param c ''token''),
                                 CallIsPresent (Address u)] @ rest
               \<and> (rest = [] \<or> rest = [CallIsPresent (Sponsor u)]
                    \<or> rest = [CallIsPresent (Sponsor u), CallSave u]))
       \<and> (db_IsPresent app (w_db w) (Address u) = Inr True \<longrightarrow>
            Writer_status (snd (activate app (w, c))) = StatusConflict
          \<and> Writer_body (snd (activate app (w, c)))
              = error_H (''user address '' @ Address u @ '' already used'')
          \<and> w_calls (fst (activate app (w, c)))
              = w_calls w @ [CallHash (Param c ''token''), CallExtract (Param c ''token''),
                             CallIsPresent (Address u)])
       \<and> (db_IsPresent app (w_db w) (Address u) = Inr True
            \<and> db_IsPresent app (w_db w) (Sponsor u) = Inr False \<longrightarrow>
            Writer_status (snd (activate app (w, c))) = StatusConflict)
       \<and> (Writer_status (snd (activate app (w, c))) = StatusConflict
            \<longleftrightarrow> db_IsPresent app (w_db w) (Address u) = Inr True)
       \<and> (\<forall>err. db_IsPresent app (w_db w) (Address u) = Inl err \<longrightarrow>
            Writer_status (snd (activate app (w, c))) = StatusInternalServerError
          \<and> Writer_body (snd (activate app (w, c))) = error_H err
          \<and> w_calls (fst (activate app (w, c)))
              = w_calls w @ [CallHash (Param c ''token''), CallExtract (Param c ''token''),
                             CallIsPresent (Address u)])
       \<and> (db_IsPresent app (w_db w) (Address u) = Inr False \<longrightarrow>
            (\<exists>rest. w_calls (fst (activate app (w, c)))
                      = w_calls w @ [CallHash (Param c ''token''), CallExtract (Param c ''token''),
                                     CallIsPresent (Address u), CallIsPresent (Sponsor u)] @ rest
                   \<and> (rest = [] \<or> rest = [CallSave u]))
          \<and> (db_IsPresent app (w_db w) (Sponsor u) = Inr False \<longrightarrow>
                Writer_status (snd (activate app (w, c))) = StatusBadRequest
              \<and> Writer_body (snd (activate app (w, c)))
                  = error_H (''sponsor address '' @ Sponsor u @ '' not found'')
              \<and> w_calls (fst (activate app (w, c)))
                  = w_calls w @ [CallHash (Param c ''token''), CallExtract (Param c ''token''),
                                 CallIsPresent (Address u), CallIsPresent (Sponsor u)])
          \<and> (\<forall>err. db_IsPresent app (w_db w) (Sponsor u) = Inl err \<longrightarrow>
                Writer_status (snd (activate app (w, c))) = StatusInternalServerError
              \<and> Writer_body (snd (activate app (w, c))) = error_H err)
          \<and> (db_IsPresent app (w_db w) (Sponsor u) = Inr True \<longrightarrow>
                w_calls (fst (activate app (w, c)))
                  = w_calls w @ [CallHash (Param c ''token''), CallExtract (Param c ''token''),
                                 CallIsPresent (Address u), CallIsPresent (Sponsor u), CallSave u]
              \<and> (Writer_status (snd (activate app (w, c))) = StatusCreated
                   \<longleftrightarrow> (\<exists>d' u'. db_Save app (w_db w) u = (d', Inr u')))))"
  using assms
  by (auto simp: activate_def called_def go_def Let_def Status_defs
           split: sum.splits prod.splits)

theorem activate_identity_before_referrer_witness:
  "Writer_status (snd (activate (TestApp Unlimited_Allow)
       (TestState [''5tsrsspeS4AR''] (), NewContext (activate_request ''eyJ.abc.sig'' ''gis.cba.Jye''))))
     = StatusConflict
   \<and> w_calls (fst (activate (TestApp Unlimited_Allow)
       (TestState [''5tsrsspeS4AR''] (), NewContext (activate_request ''eyJ.abc.sig'' ''gis.cba.Jye''))))
     = [CallHash ''eyJ.abc.sig'', CallExtract ''eyJ.abc.sig'', CallIsPresent ''5tsrsspeS4AR'']
   \<and> Writer_status (snd (activate (TestApp Unlimited_Allow)
       (TestState [] (), NewContext (activate_request ''eyJ.abc.sig'' ''gis.cba.Jye''))))
     = StatusBadRequest
   \<and> w_calls (fst (activate (TestApp Unlimited_Allow)
       (TestState [] (), NewContext (activate_request ''eyJ.abc.sig'' ''gis.cba.Jye''))))
     = [CallHash ''eyJ.abc.sig'', CallExtract ''eyJ.abc.sig'', CallIsPresent ''5tsrsspeS4AR'',
        CallIsPresent ''9mf2bkJf5Teb'']
   \<and> w_calls (fst (activate (TestApp Unlimited_Allow)
       (TestState [''9mf2bkJf5Teb''] (), NewContext (activate_request ''eyJ.abc.sig'' ''gis.cba.Jye''))))
     = [CallHash ''eyJ.abc.sig'', CallExtract ''eyJ.abc.sig'', CallIsPresent ''5tsrsspeS4AR'',
        CallIsPresent ''9mf2bkJf5Teb'', CallSave john]"
proof -
  let ?c = "NewContext (activate_request ''eyJ.abc.sig'' ''gis.cba.Jye'')"
  let ?app = "TestApp Unlimited_Allow :: (string list, unit) App"
  let ?w = "TestState [''5tsrsspeS4AR''] () :: (string list, unit) state"
  let ?v = "TestState [] () :: (string list, unit) state"
  let ?x = "TestState [''9mf2bkJf5Teb''] () :: (string list, unit) state"
  have m: "jwtregexp_MatchString (Param ?c ''token'')"
    using matches_abc by (simp add: ctx_defs fixture_defs)
  have fp: "jwt_Hash ?app (Param ?c ''token'') = Param ?c ''hash''"
    by (simp add: ctx_defs fixture_defs)
  have ex: "jwt_Extract ?app (req_now (Request ?c)) (Param ?c ''token'') = Inr john"
    by (simp add: ctx_defs fixture_defs)
  have known: "db_IsPresent ?app (w_db ?w) (Address john) = Inr True"
    by (simp add: fixture_defs)
  have unknown: "db_IsPresent ?app (w_db ?v) (Address john) = Inr False"
    "db_IsPresent ?app (w_db ?v) (Sponsor john) = Inr False"
    by (simp_all add: fixture_defs)
  have sponsored: "db_IsPresent ?app (w_db ?x) (Address john) = Inr False"
    "db_IsPresent ?app (w_db ?x) (Sponsor john) = Inr True"
    by (simp_all add: fixture_defs)
  have p: "Param ?c ''token'' = ''eyJ.abc.sig''" "Address john = ''5tsrsspeS4AR''"
    "Sponsor john = ''9mf2bkJf5Teb''" "w_calls ?w = []" "w_calls ?v = []" "w_calls ?x = []"
    by (simp_all add: ctx_defs fixture_defs)
  from activate_identity_before_referrer[OF m fp ex, of ?w] known
  have 1: "Writer_status (snd (activate ?app (?w, ?c))) = StatusConflict"
    "w_calls (fst (activate ?app (?w, ?c)))
       = [CallHash ''eyJ.abc.sig'', CallExtract ''eyJ.abc.sig'', CallIsPresent ''5tsrsspeS4AR'']"
    by (simp_all add: p)
  from activate_identity_before_referrer[OF m fp ex, of ?v] unknown
  have 2: "Writer_status (snd (activate ?app (?v, ?c))) = StatusBadRequest"
    "w_calls (fst (activate ?app (?v, ?c)))
       = [CallHash ''eyJ.abc.sig'', CallExtract ''eyJ.abc.sig'', CallIsPresent ''5tsrsspeS4AR'',
          CallIsPresent ''9mf2bkJf5Teb'']"
    by (simp_all add: p)
  from activate_identity_before_referrer[OF m fp ex, of ?x] sponsored
  have 3: "w_calls (fst (activate ?app (?x, ?c)))
       = [CallHash ''eyJ.abc.sig'', CallExtract ''eyJ.abc.sig'', CallIsPresent ''5tsrsspeS4AR'',
          CallIsPresent ''9mf2bkJf5Teb'', CallSave john]"
    by (simp add: p)
  from 1 2 3 show ?thesis by simp
qed

text \<open>
  C5 (as amended). A valid token with a matching fingerprint, an unknown address and an unknown
  sponsor gives 400 Bad Request with the message \<^verbatim>\<open>sponsor address ... not found\<close>. That
  status differs from 409 Conflict, 401 Unauthorized and 412 Precondition Failed, and it is the
  status \<^verbatim>\<open>register\<close> gives a body that fails validation.
\<close>

theorem activate_unknown_referrer:
  assumes "jwtregexp_MatchString (Param c ''token'')"
    and "jwt_Hash app (Param c ''token'') = Param c ''hash''"
    and "jwt_Extract app (req_now (Request c)) (Param c ''token'') = Inr u"
    and "db_IsPresent app (w_db w) (Address u) = Inr False"
    and "db_IsPresent app (w_db w) (Sponsor u) = Inr False"
  shows "Writer_status (snd (activate app (w, c))) = StatusBadRequest
       \<and> Writer_body (snd (activate app (w, c)))
           = error_H (''sponsor address '' @ Sponsor u @ '' not found'')
       \<and> Writer_status (snd (activate app (w, c))) \<noteq> StatusConflict
       \<and> Writer_status (snd (activate app (w, c))) \<noteq> StatusUnauthorized
       \<and> Writer_status (snd (activate app (w, c))) \<noteq> StatusPreconditionFailed
       \<and> (\<forall>w2 c2 err. ShouldBindJSON app (req_body (Request c2)) = Inl err \<longrightarrow>
             Writer_status (snd (register app (w2, c2)))
               = Writer_status (snd (activate app (w, c))))"
  using assms
  by (auto simp: activate_def register_def called_def go_def Let_def Status_defs
           split: sum.splits prod.splits)

theorem activate_unknown_referrer_witness:
  "Writer_status (snd (activate (TestApp Unlimited_Allow)
       (TestState [] (), NewContext (activate_request ''eyJ.abc.sig'' ''gis.cba.Jye''))))
     = StatusBadRequest
   \<and> Writer_body (snd (activate (TestApp Unlimited_Allow)
       (TestState [] (), NewContext (activate_request ''eyJ.abc.sig'' ''gis.cba.Jye''))))
     = error_H ''sponsor address 9mf2bkJf5Teb not found''"
proof -
  let ?c = "NewContext (activate_request ''eyJ.abc.sig'' ''gis.cba.Jye'')"
  let ?app = "TestApp Unlimited_Allow :: (string list, unit) App"
  let ?w = "TestState [] ()"
  have m: "jwtregexp_MatchString (Param ?c ''token'')"
    using matches_abc by (simp add: ctx_defs fixture_defs)
  have fp: "jwt_Hash ?app (Param ?c ''token'') = Param ?c ''hash''"
    by (simp add: ctx_defs fixture_defs)
  have ex: "jwt_Extract ?app (req_now (Request ?c)) (Param ?c ''token'') = Inr john"
    by (simp add: ctx_defs fixture_defs)
  have a: "db_IsPresent ?app (w_db ?w) (Address john) = Inr False"
    by (simp add: fixture_defs)
  have s: "db_IsPresent ?app (w_db ?w) (Sponsor john) = Inr False"
    by (simp add: fixture_defs)
  from activate_unknown_referrer[OF m fp ex a s]
  show ?thesis
    by (simp add: john_def)
qed

text \<open>
  C5 as stated fails: the unknown-sponsor answer and the validation-failure answer carry the
  same status, and it is not 412.
\<close>

theorem unknown_referrer_kind_counterexample:
  "Writer_status (snd (activate (TestApp Unlimited_Allow)
       (TestState [] (), NewContext (activate_request ''eyJ.abc.sig'' ''gis.cba.Jye''))))
     = Writer_status (snd (register (TestApp Unlimited_Allow)
       (TestState [] (), NewContext (register_request ''nobody''))))
   \<and> Writer_status (snd (activate (TestApp Unlimited_Allow)
       (TestState [] (), NewContext (activate_request ''eyJ.abc.sig'' ''gis.cba.Jye''))))
     \<noteq> StatusPreconditionFailed"
  using matches_abc
  by (simp add: activate_def register_def called_def go_def Let_def ctx_defs fixture_defs Status_defs)

text \<open>
  C6. \<^verbatim>\<open>activate\<close> changes the presence cache only on the path where \<^verbatim>\<open>Save\<close>
  succeeded, and then by adding the saved user's address and timestamp: if the cache changed, or
  the answer is 201 Created, then the pattern and fingerprint matched, \<^verbatim>\<open>Extract\<close>
  succeeded, the address was unknown, the sponsor known and the store saved the user; on every
  other answer the cache is what it was.
\<close>

theorem activate_cache_after_persist:
  "(w_c (fst (activate app (w, c))) \<noteq> w_c w \<or>
    Writer_status (snd (activate app (w, c))) = StatusCreated \<longrightarrow>
      (\<exists>u d' u'.
         jwtregexp_MatchString (Param c ''token'')
       \<and> jwt_Hash app (Param c ''token'') = Param c ''hash''
       \<and> jwt_Extract app (req_now (Request c)) (Param c ''token'') = Inr u
       \<and> db_IsPresent app (w_db w) (Address u) = Inr False
       \<and> db_IsPresent app (w_db w) (Sponsor u) = Inr True
       \<and> db_Save app (w_db w) u = (d', Inr u')
       \<and> w_db (fst (activate app (w, c))) = d'
       \<and> w_c (fst (activate app (w, c))) = Cache_Add (w_c w) (Address u') (Timestamp u')
       \<and> Writer_status (snd (activate app (w, c))) = StatusCreated))
   \<and> (Writer_status (snd (activate app (w, c))) \<noteq> StatusCreated \<longrightarrow>
        w_c (fst (activate app (w, c))) = w_c w)"
  by (auto simp: activate_def called_def go_def Let_def Status_defs
           split: sum.splits prod.splits)

theorem activate_cache_after_persist_witness:
  "w_c (fst (activate (TestApp Unlimited_Allow)
       (TestState [''5tsrsspeS4AR''] (), NewContext (activate_request ''eyJ.abc.sig'' ''gis.cba.Jye''))))
     = Cache_New
   \<and> Writer_status (snd (activate (TestApp Unlimited_Allow)
       (TestState [''5tsrsspeS4AR''] (), NewContext (activate_request ''eyJ.abc.sig'' ''gis.cba.Jye''))))
     = StatusConflict
   \<and> w_c (fst (activate (TestApp Unlimited_Allow)
       (TestState [''9mf2bkJf5Teb''] (), NewContext (activate_request ''eyJ.abc.sig'' ''gis.cba.Jye''))))
     = Cache_Add Cache_New ''5tsrsspeS4AR'' 1700000000000
   \<and> Writer_status (snd (activate (TestApp Unlimited_Allow)
       (TestState [''9mf2bkJf5Teb''] (), NewContext (activate_request ''eyJ.abc.sig'' ''gis.cba.Jye''))))
     = StatusCreated"
proof -
  let ?c = "NewContext (activate_request ''eyJ.abc.sig'' ''gis.cba.Jye'')"
  let ?app = "TestApp Unlimited_Allow :: (string list, unit) App"
  let ?w = "TestState [''5tsrsspeS4AR''] () :: (string list, unit) state"
  let ?v = "TestState [''9mf2bkJf5Teb''] () :: (string list, unit) state"
  have st: "Writer_status (snd (activate ?app (?w, ?c))) = StatusConflict"
    using matches_abc
    by (simp add: activate_def called_def Let_def ctx_defs fixture_defs)
  then have ne: "Writer_status (snd (activate ?app (?w, ?c))) \<noteq> StatusCreated"
    by (simp add: Status_defs)
  have same: "w_c (fst (activate ?app (?w, ?c))) = Cache_New"
    using activate_cache_after_persist[of ?app ?w ?c] ne
    by (simp add: TestState_def)
  have ok: "Writer_status (snd (activate ?app (?v, ?c))) = StatusCreated"
    using matches_abc
    by (simp add: activate_def called_def go_def Let_def ctx_defs fixture_defs)
  with activate_cache_after_persist[of ?app ?v ?c]
  obtain u d' u' where
    "jwt_Extract ?app (req_now (Request ?c)) (Param ?c ''token'') = Inr u"
    "db_Save ?app (w_db ?v) u = (d', Inr u')"
    "w_c (fst (activate ?app (?v, ?c))) = Cache_Add (w_c ?v) (Address u') (Timestamp u')"
    by blast
  then have added: "w_c (fst (activate ?app (?v, ?c))) = Cache_Add Cache_New ''5tsrsspeS4AR'' 1700000000000"
    by (auto simp: ctx_defs fixture_defs)
  from same st added ok show ?thesis
    by simp
qed

section \<open>Properties of registration\<close>

text \<open>
  C8 (as amended). The link \<^verbatim>\<open>register\<close> hands to the mailer is
  \<^verbatim>\<open>https://unleak.trade/activate/<token>\<close>; the fingerprint goes to the mailer as a
  separate argument and is not a path segment of the link.
\<close>

theorem register_link:
  assumes "ShouldBindJSON app (req_body (Request c)) = Inr u"
    and "jwt_Create app u (req_now (Request c)) = Inr token"
  shows "w_tasks (fst (register app (w, c)))
           = w_tasks w @ [SendActivationEmail (Email u)
                            (''https://unleak.trade/activate/'' @ token) (jwt_Hash app token)]
       \<and> generateSecuredLink token = ''https://unleak.trade/activate/'' @ token
       \<and> generateSecuredLink token
           \<noteq> ''https://unleak.trade/activate/'' @ token @ ''/'' @ jwt_Hash app token"
  using assms
  by (auto simp: register_def called_def go_def Let_def generateSecuredLink_def)

theorem register_link_witness:
  "w_tasks (fst (register (TestApp Unlimited_Allow)
       (TestState [] (), NewContext (register_request ''john''))))
     = [SendActivationEmail ''john.doe@mailservice.com''
          ''https://unleak.trade/activate/eyJ.abc.sig'' ''gis.cba.Jye'']"
proof -
  let ?c = "NewContext (register_request ''john'')"
  let ?app = "TestApp Unlimited_Allow :: (string list, unit) App"
  let ?u = "\<lparr>Address = ''5tsrsspeS4AR'', Email = ''john.doe@mailservice.com'', UUID = [],
                Timestamp = 0, Sponsor = ''9mf2bkJf5Teb''\<rparr>"
  have b: "ShouldBindJSON ?app (req_body (Request ?c)) = Inr ?u"
    by (simp add: ctx_defs fixture_defs)
  have cr: "jwt_Create ?app ?u (req_now (Request ?c)) = Inr ''eyJ.abc.sig''"
    by (simp add: ctx_defs fixture_defs)
  from register_link[OF b cr, of "TestState [] ()"]
  show ?thesis
    by (simp add: fixture_defs)
qed

text \<open>
  C8 as stated fails: the link handed to the mailer for the fixture request ends with the
  token, not with the fingerprint.
\<close>

theorem activation_link_counterexample:
  "w_tasks (fst (register (TestApp Unlimited_Allow)
       (TestState [] (), NewContext (register_request ''john''))))
     = [SendActivationEmail ''john.doe@mailservice.com''
          ''https://unleak.trade/activate/eyJ.abc.sig'' ''gis.cba.Jye'']
   \<and> ''https://unleak.trade/activate/eyJ.abc.sig''
       \<noteq> ''https://unleak.trade/activate/'' @ ''eyJ.abc.sig'' @ ''/'' @ ''gis.cba.Jye''"
  by (simp add: register_def called_def go_def Let_def generateSecuredLink_def ctx_defs fixture_defs)

text \<open>
  C9. A \<^verbatim>\<open>register\<close> request whose body binds makes no call on the durable store and
  leaves the store and the cache as they were; when the token service mints a token, the answer
  is 202 Accepted with that token's fingerprint. A second registration is answered as if the
  first had not happened, from a token minted by a call of its own.
\<close>

theorem register_no_store:
  assumes "ShouldBindJSON app (req_body (Request c)) = Inr u"
  shows "w_db (fst (register app (w, c))) = w_db w
       \<and> w_c (fst (register app (w, c))) = w_c w
       \<and> (\<exists>cs. w_calls (fst (register app (w, c))) = w_calls w @ cs
                \<and> list_all (\<lambda>x. \<not> is_store_call x) cs)
       \<and> (\<forall>token. jwt_Create app u (req_now (Request c)) = Inr token \<longrightarrow>
             Writer_status (snd (register app (w, c))) = StatusAccepted
           \<and> Writer_body (snd (register app (w, c)))
               = JSONBody ((''hash'', JString (jwt_Hash app token))
                           # (if IsDebugging app then [(''token'', JString token)] else []))
           \<and> w_calls (fst (register app (w, c)))
               = w_calls w @ [CallCreate u (req_now (Request c)), CallHash token])
       \<and> (\<forall>c2. snd (register app (fst (register app (w, c)), c2)) = snd (register app (w, c2))
              \<and> w_db (fst (register app (fst (register app (w, c)), c2))) = w_db w
              \<and> (\<forall>u2 token2. ShouldBindJSON app (req_body (Request c2)) = Inr u2
                    \<and> jwt_Create app u2 (req_now (Request c2)) = Inr token2 \<longrightarrow>
                    Writer_body (snd (register app (fst (register app (w, c)), c2)))
                      = JSONBody ((''hash'', JString (jwt_Hash app token2))
                                  # (if IsDebugging app then [(''token'', JString token2)] else []))
                  \<and> CallCreate u2 (req_now (Request c2))
                      \<in> set (w_calls (fst (register app (fst (register app (w, c)), c2))))))"
  using assms
  by (auto simp: register_def called_def go_def Let_def is_store_call_def
           split: sum.splits prod.splits)

theorem register_no_store_witness:
  "w_db (fst (register (TestApp Unlimited_Allow)
       (TestState [''9mf2bkJf5Teb''] (), NewContext (register_request ''john''))))
     = [''9mf2bkJf5Teb'']
   \<and> Writer_status (snd (register (TestApp Unlimited_Allow)
       (TestState [''9mf2bkJf5Teb''] (), NewContext (register_request ''john''))))
     = StatusAccepted
   \<and> Writer_body (snd (register (TestApp Unlimited_Allow)
       (TestState [''9mf2bkJf5Teb''] (), NewContext (register_request ''john''))))
     = JSONBody [(''hash'', JString ''gis.cba.Jye'')]"
proof -
  let ?c = "NewContext (register_request ''john'')"
  let ?app = "TestApp Unlimited_Allow :: (string list, unit) App"
  let ?w = "TestState [''9mf2bkJf5Teb''] () :: (string list, unit) state"
  let ?u = "\<lparr>Address = ''5tsrsspeS4AR'', Email = ''john.doe@mailservice.com'', UUID = [],
                Timestamp = 0, Sponsor = ''9mf2bkJf5Teb''\<rparr>"
  have b: "ShouldBindJSON ?app (req_body (Request ?c)) = Inr ?u"
    by (simp add: ctx_defs fixture_defs)
  have cr: "jwt_Create ?app ?u (req_now (Request ?c)) = Inr ''eyJ.abc.sig''"
    by (simp add: ctx_defs fixture_defs)
  from register_no_store[OF b, of ?w] cr
  show ?thesis
    by (simp add: fixture_defs)
qed

section \<open>Properties of the API key gate\<close>

text \<open>
  C10 (as amended). On every operation, a request (not an \<^verbatim>\<open>OPTIONS\<close> one) whose
  \<^verbatim>\<open>UNLK-API-KEY\<close> header is missing, empty or different from the configured key is
  aborted before its handler: the answer is 401 Unauthorized when the limiter admits the request
  and 429 Too Many Requests when it does not, the outcome is the same for every operation, and
  the only state that changes is the limiter's, which runs before the key is checked.
\<close>

theorem requireAPIKey_gate:
  assumes "req_method r \<noteq> ''OPTIONS''"
    and "GetHeader (NewContext r) ''UNLK-API-KEY'' = []
         \<or> GetHeader (NewContext r) ''UNLK-API-KEY'' \<noteq> apiKey app"
  shows "fst (serve app rt w r)
           = w\<lparr>w_rl := snd (rl_Allow app (w_rl w) (req_ClientIP r) (req_now r))\<rparr>
       \<and> aborted (snd (serve app rt w r))
       \<and> Writer_status (snd (serve app rt w r))
           = (if fst (rl_Allow app (w_rl w) (req_ClientIP r) (req_now r))
              then StatusUnauthorized else StatusTooManyRequests)
       \<and> Writer_body (snd (serve app rt w r))
           = (if fst (rl_Allow app (w_rl w) (req_ClientIP r) (req_now r))
              then error_H ''Unauthorized''
              else JSONBody [(''error'', JString ''Too Many Requests''),
                             (''ip'', JString (req_ClientIP r))])
       \<and> serve app rt w r = serve app rt' w r"
  using serve_denied_state[OF assms] serve_denied_response[OF assms]
        serve_denied_any_route[OF assms]
  by blast

theorem requireAPIKey_gate_witness:
  "Writer_status (snd (serve (TestApp Unlimited_Allow) POST_activate (TestState [] ())
                         (health_request [(''UNLK-API-KEY'', ''wrong-key'')])))
     = StatusUnauthorized
   \<and> fst (serve (TestApp Unlimited_Allow) POST_activate (TestState [] ())
                         (health_request [(''UNLK-API-KEY'', ''wrong-key'')]))
     = TestState [] ()"
proof -
  let ?r = "health_request [(''UNLK-API-KEY'', ''wrong-key'')]"
  let ?app = "TestApp Unlimited_Allow :: (string list, unit) App"
  have m: "req_method ?r \<noteq> ''OPTIONS''"
    by (simp add: health_request_def)
  have k: "GetHeader (NewContext ?r) ''UNLK-API-KEY'' = []
         \<or> GetHeader (NewContext ?r) ''UNLK-API-KEY'' \<noteq> apiKey ?app"
    by (simp add: ctx_defs fixture_defs)
  from requireAPIKey_gate[OF m k, of POST_activate "TestState [] ()"]
  show ?thesis
    by (simp add: fixture_defs)
qed

text \<open>
  C10 as stated fails: with the deployment's limiter (0.1 per second, burst 10) a request
  without the key changes the limiter's state, and the eleventh such request in a row is
  answered 429, not 401.
\<close>

theorem api_key_gate_counterexample:
  "Writer_status (snd (serve (TestApp limiter_Allow) GET_health
                         (TestState [] (limiter_New 1 10000 10)) (health_request [])))
     = StatusUnauthorized
   \<and> w_rl (fst (serve (TestApp limiter_Allow) GET_health
                         (TestState [] (limiter_New 1 10000 10)) (health_request [])))
     \<noteq> w_rl (TestState [] (limiter_New 1 10000 10))
   \<and> Writer_status (snd (serve (TestApp limiter_Allow) GET_health
                         (serve_n (TestApp limiter_Allow) GET_health 10
                            (TestState [] (limiter_New 1 10000 10)) (health_request []))
                         (health_request [])))
     = StatusTooManyRequests"
  by (simp add: serve_keyless serve_n_numeral TestState_def limiter_Allow_def limiter_New_def
        Status_defs fun_eq_iff)

section \<open>Properties of the token service\<close>

lemma whole_second_bounds: "whole_second t \<le> t \<and> t < whole_second t + second"
proof -
  have "0 < second" by (simp add: second_def)
  then have "t mod second < second" "0 \<le> t mod second"
    by simp_all
  moreover have "t = whole_second t + t mod second"
    by (simp add: whole_second_def)
  ultimately show ?thesis by linarith
qed

lemma Extract_created:
  assumes "identity cand \<noteq> [] \<and> contact cand \<noteq> [] \<and> referrer cand \<noteq> []"
    and "sign lib (svc_alg svc) (svc_key svc) (stamp cand t) = Some sg"
    and "verify lib (svc_alg svc) (svc_key svc) (stamp cand t) sg"
    and "decode lib (encode lib \<lparr>tok_alg = svc_alg svc, tok_claims = stamp cand t, tok_signature = sg\<rparr>)
           = Some \<lparr>tok_alg = svc_alg svc, tok_claims = stamp cand t, tok_signature = sg\<rparr>"
  shows "Create lib svc cand t
           = Inr (encode lib \<lparr>tok_alg = svc_alg svc, tok_claims = stamp cand t, tok_signature = sg\<rparr>)"
    and "Extract lib svc t'
           (encode lib \<lparr>tok_alg = svc_alg svc, tok_claims = stamp cand t, tok_signature = sg\<rparr>)
          = (if whole_second t \<le> t' \<and> t' < whole_second t + fixedWindow
             then Inr cand else Inl InvalidToken)"
  using assms
  by (auto simp: Create_def Extract_def examine_def Let_def stamp_def)

lemmas toy_defs = toy_lib_def toy_service_def toy_token_def

lemma vector_stamp:
  "whole_second vector_instant = 1647952000000000"
  by (simp add: whole_second_def vector_instant_def second_def)

lemma toy_created:
  fixes cand :: candidate
  assumes "cand = \<lparr>identity = ''5tsrsspeS4AR'', contact = ''john.doe@mailservice.com'',
                    referrer = ''9mf2bkJf5Teb''\<rparr>"
  shows "identity cand \<noteq> [] \<and> contact cand \<noteq> [] \<and> referrer cand \<noteq> []"
    and "sign toy_lib (svc_alg toy_service) (svc_key toy_service) (stamp cand vector_instant)
           = Some ''secret''"
    and "verify toy_lib (svc_alg toy_service) (svc_key toy_service) (stamp cand vector_instant)
           ''secret''"
    and "encode toy_lib \<lparr>tok_alg = svc_alg toy_service, tok_claims = stamp cand vector_instant,
                          tok_signature = ''secret''\<rparr> = ''eyJ.abc.sig''"
    and "decode toy_lib ''eyJ.abc.sig''
           = Some \<lparr>tok_alg = svc_alg toy_service, tok_claims = stamp cand vector_instant,
                   tok_signature = ''secret''\<rparr>"
  using assms by (simp_all add: toy_defs)

text \<open>
  C2. \<open>Extract\<close> fails with \<open>InvalidToken\<close> exactly when the examination finds any
  reason to reject, and never with another error: a string that does not decode, a token of
  another algorithm family, a signature the instance's key does not verify, an expired or
  not yet valid token, and a token whose identity, contact or referrer is empty (whatever its
  signature and instants) all give the same \<open>InvalidToken\<close>.
\<close>

theorem Extract_failures_collapse:
  "(Extract lib svc now s = Inl InvalidToken \<longleftrightarrow> (\<exists>r. examine lib svc now s = Inl r))
   \<and> Extract lib svc now s \<noteq> Inl SigningFault
   \<and> (decode lib s = None \<longrightarrow> Extract lib svc now s = Inl InvalidToken)
   \<and> (\<forall>tok. decode lib s = Some tok \<longrightarrow>
        (family_of (tok_alg tok) \<noteq> family_of (svc_alg svc) \<longrightarrow>
           Extract lib svc now s = Inl InvalidToken)
      \<and> (\<not> verify lib (tok_alg tok) (svc_key svc) (tok_claims tok) (tok_signature tok) \<longrightarrow>
           Extract lib svc now s = Inl InvalidToken)
      \<and> (expiresAt (tok_claims tok) \<le> now \<longrightarrow> Extract lib svc now s = Inl InvalidToken)
      \<and> (now < notBefore (tok_claims tok) \<longrightarrow> Extract lib svc now s = Inl InvalidToken)
      \<and> (identity (subject (tok_claims tok)) = [] \<or> contact (subject (tok_claims tok)) = []
           \<or> referrer (subject (tok_claims tok)) = [] \<longrightarrow>
           Extract lib svc now s = Inl InvalidToken))"
  by (auto simp: Extract_def examine_def Let_def split: sum.splits option.splits)

theorem Extract_failures_collapse_witness:
  "Extract toy_lib toy_service vector_instant ''eyJ.anon.sig'' = Inl InvalidToken
   \<and> Extract toy_lib toy_service vector_instant ''garbage'' = Inl InvalidToken"
proof -
  have d1: "decode toy_lib ''eyJ.anon.sig''
              = Some (toy_token\<lparr>tok_claims := stamp \<lparr>identity = [], contact = ''john.doe@mailservice.com'',
                                                      referrer = ''9mf2bkJf5Teb''\<rparr> vector_instant\<rparr>)"
    by (simp add: toy_lib_def)
  have d2: "decode toy_lib ''garbage'' = None"
    by (simp add: toy_lib_def)
  from Extract_failures_collapse[of toy_lib toy_service vector_instant "''eyJ.anon.sig''"]
       Extract_failures_collapse[of toy_lib toy_service vector_instant "''garbage''"] d1 d2
  show ?thesis
    by (simp add: stamp_def)
qed

text \<open>
  C3 (as amended). For claims with non-empty identity, contact and referrer, when the library
  signs, verifies its own signature and decodes what it encoded, \<open>Create\<close> at instant \<open>t\<close>
  returns a token whose window starts at \<open>t\<close> rounded down to the second: \<open>Extract\<close> returns
  the same claims at every \<open>t'\<close> with \<open>whole_second t \<le> t' < whole_second t + fixedWindow\<close>,
  and \<open>InvalidToken\<close> at every later and every earlier \<open>t'\<close>. The window starts less than a
  second before \<open>t\<close>, and at \<open>t\<close> itself when \<open>t\<close> is a whole second.
\<close>

theorem Create_Extract_roundtrip:
  assumes "identity cand \<noteq> [] \<and> contact cand \<noteq> [] \<and> referrer cand \<noteq> []"
    and "sign lib (svc_alg svc) (svc_key svc) (stamp cand t) = Some sg"
    and "verify lib (svc_alg svc) (svc_key svc) (stamp cand t) sg"
    and "decode lib (encode lib \<lparr>tok_alg = svc_alg svc, tok_claims = stamp cand t, tok_signature = sg\<rparr>)
           = Some \<lparr>tok_alg = svc_alg svc, tok_claims = stamp cand t, tok_signature = sg\<rparr>"
  shows "\<exists>s. Create lib svc cand t = Inr s
           \<and> (\<forall>t'. (whole_second t \<le> t' \<and> t' < whole_second t + fixedWindow \<longrightarrow>
                      Extract lib svc t' s = Inr cand)
                  \<and> (whole_second t + fixedWindow \<le> t' \<or> t' < whole_second t \<longrightarrow>
                      Extract lib svc t' s = Inl InvalidToken))
           \<and> whole_second t \<le> t \<and> t < whole_second t + second
           \<and> (whole_second t = t \<longrightarrow>
                (\<forall>t'. (t \<le> t' \<and> t' < t + fixedWindow \<longrightarrow> Extract lib svc t' s = Inr cand)
                     \<and> (t + fixedWindow \<le> t' \<or> t' < t \<longrightarrow>
                          Extract lib svc t' s = Inl InvalidToken)))"
  using Extract_created[OF assms] whole_second_bounds[of t]
  by auto

theorem Create_Extract_roundtrip_witness:
  "Create toy_lib toy_service
     \<lparr>identity = ''5tsrsspeS4AR'', contact = ''john.doe@mailservice.com'', referrer = ''9mf2bkJf5Teb''\<rparr>
     vector_instant
     = Inr ''eyJ.abc.sig''
   \<and> Extract toy_lib toy_service 1647952000000000 ''eyJ.abc.sig''
     = Inr \<lparr>identity = ''5tsrsspeS4AR'', contact = ''john.doe@mailservice.com'', referrer = ''9mf2bkJf5Teb''\<rparr>
   \<and> Extract toy_lib toy_service 1648551999999999 ''eyJ.abc.sig''
     = Inr \<lparr>identity = ''5tsrsspeS4AR'', contact = ''john.doe@mailservice.com'', referrer = ''9mf2bkJf5Teb''\<rparr>
   \<and> Extract toy_lib toy_service 1648552000000000 ''eyJ.abc.sig'' = Inl InvalidToken
   \<and> Extract toy_lib toy_service 1647951999999999 ''eyJ.abc.sig'' = Inl InvalidToken"
proof -
  let ?cand = "\<lparr>identity = ''5tsrsspeS4AR'', contact = ''john.doe@mailservice.com'', referrer = ''9mf2bkJf5Teb''\<rparr>"
  note f = toy_created[OF refl]
  have codec: "decode toy_lib (encode toy_lib \<lparr>tok_alg = svc_alg toy_service,
                   tok_claims = stamp ?cand vector_instant, tok_signature = ''secret''\<rparr>)
           = Some \<lparr>tok_alg = svc_alg toy_service, tok_claims = stamp ?cand vector_instant,
                   tok_signature = ''secret''\<rparr>"
    by (simp only: f(4) f(5))
  have cr: "Create toy_lib toy_service ?cand vector_instant = Inr ''eyJ.abc.sig''"
    using Extract_created(1)[OF f(1) f(2) f(3) codec] by (simp only: f(4))
  from Create_Extract_roundtrip[OF f(1) f(2) f(3) codec] cr
  have a: "\<forall>t'. (whole_second vector_instant \<le> t'
                  \<and> t' < whole_second vector_instant + fixedWindow \<longrightarrow>
                Extract toy_lib toy_service t' ''eyJ.abc.sig'' = Inr ?cand)
              \<and> (whole_second vector_instant + fixedWindow \<le> t'
                  \<or> t' < whole_second vector_instant \<longrightarrow>
                Extract toy_lib toy_service t' ''eyJ.abc.sig'' = Inl InvalidToken)"
    by simp
  have w: "(1647952000000000 \<le> t' \<and> t' < 1648552000000000 \<longrightarrow>
              Extract toy_lib toy_service t' ''eyJ.abc.sig'' = Inr ?cand)
         \<and> (1648552000000000 \<le> t' \<or> t' < 1647952000000000 \<longrightarrow>
              Extract toy_lib toy_service t' ''eyJ.abc.sig'' = Inl InvalidToken)" for t'
    using spec[OF a, of t'] by (simp add: vector_stamp fixedWindow_def second_def)
  show ?thesis
    using cr w[of 1647952000000000] w[of 1648551999999999] w[of 1648552000000000]
      w[of 1647951999999999]
    by simp
qed

text \<open>
  C3 as stated fails at the instant of the test vector, 1647952.128425 s: the token is accepted
  at 1647952 s, before it was issued, and rejected at 1648552 s, less than ten minutes after.
\<close>

theorem roundtrip_window_counterexample:
  "Create toy_lib toy_service
     \<lparr>identity = ''5tsrsspeS4AR'', contact = ''john.doe@mailservice.com'', referrer = ''9mf2bkJf5Teb''\<rparr>
     vector_instant
     = Inr ''eyJ.abc.sig''
   \<and> 1647952000000000 < vector_instant
   \<and> Extract toy_lib toy_service 1647952000000000 ''eyJ.abc.sig''
     = Inr \<lparr>identity = ''5tsrsspeS4AR'', contact = ''john.doe@mailservice.com'', referrer = ''9mf2bkJf5Teb''\<rparr>
   \<and> vector_instant \<le> 1648552000000000
   \<and> 1648552000000000 < vector_instant + fixedWindow
   \<and> Extract toy_lib toy_service 1648552000000000 ''eyJ.abc.sig'' = Inl InvalidToken"
proof -
  let ?cand = "\<lparr>identity = ''5tsrsspeS4AR'', contact = ''john.doe@mailservice.com'', referrer = ''9mf2bkJf5Teb''\<rparr>"
  note f = toy_created[OF refl]
  have codec: "decode toy_lib (encode toy_lib \<lparr>tok_alg = svc_alg toy_service,
                   tok_claims = stamp ?cand vector_instant, tok_signature = ''secret''\<rparr>)
           = Some \<lparr>tok_alg = svc_alg toy_service, tok_claims = stamp ?cand vector_instant,
                   tok_signature = ''secret''\<rparr>"
    by (simp only: f(4) f(5))
  have cr: "Create toy_lib toy_service ?cand vector_instant = Inr ''eyJ.abc.sig''"
    using Extract_created(1)[OF f(1) f(2) f(3) codec] by (simp only: f(4))
  have ex: "Extract toy_lib toy_service t' ''eyJ.abc.sig''
          = (if 1647952000000000 \<le> t' \<and> t' < 1648552000000000
             then Inr ?cand else Inl InvalidToken)" for t'
    using Extract_created(2)[OF f(1) f(2) f(3) codec, of t']
    by (simp add: f(4) vector_stamp fixedWindow_def second_def)
  have "1647952000000000 < vector_instant" "vector_instant \<le> 1648552000000000"
    "1648552000000000 < vector_instant + fixedWindow"
    by (simp_all add: vector_instant_def second_def fixedWindow_def)
  then show ?thesis
    using cr by (simp add: ex)
qed

end
